theory Spec2Isabelle
  imports Main
begin

section \<open>redux-actionz: action creators and map-based reducers\<close>

text \<open>
  The library (\<^verbatim>\<open>index.ts\<close>) is a handful of TypeScript functions: \<^verbatim>\<open>action\<close> and
  \<^verbatim>\<open>asyncAction\<close> build action creators, \<^verbatim>\<open>handle\<close> builds a one-entry handler map,
  \<^verbatim>\<open>createReducer\<close> and \<^verbatim>\<open>createReducerAppend\<close> turn a handler map and an initial
  state into a reducer, and \<^verbatim>\<open>handleActions\<close> and \<^verbatim>\<open>handleActionsAppend\<close> merge a
  list of handler maps first. The specification calls them \<^verbatim>\<open>makeAction\<close>,
  \<^verbatim>\<open>makeLifecycleAction\<close>, \<^verbatim>\<open>associate\<close>, \<^verbatim>\<open>buildReducer\<close>,
  \<^verbatim>\<open>buildReducerAppend\<close>, \<^verbatim>\<open>assembleReducer\<close> and \<^verbatim>\<open>assembleReducerAppend\<close>.

  TypeScript's types are erased when the code runs, so the embedding keeps one type per
  role: \<open>'v\<close> for the data an action creator receives and the payload it produces,
  \<open>'s\<close> for states, \<open>'p\<close> for the payloads a reducer reads, \<open>'w\<close> for whatever an
  effect may read and change outside its argument (a counter, a random source). Numbers
  are \<open>int\<close> where a scenario needs them; the scenarios only add and subtract small
  integers, where JavaScript's doubles are exact.
\<close>

subsection \<open>Plain objects\<close>

text \<open>
  A plain JavaScript object, as an object literal or \<^verbatim>\<open>objectAssign({}, ...)\<close> creates
  it, is modelled by its own properties, a map from property name to value, and inherits
  from \<^verbatim>\<open>Object.prototype\<close>. Object identity is not modelled: two objects are equal
  when their own properties are.
\<close>

type_synonym 'a object = "string \<rightharpoonup> 'a"

text \<open>
  The property names of \<^verbatim>\<open>Object.prototype\<close> (ECMAScript 2017, 19.1.3 and B.2.2), which
  every plain object inherits.
\<close>

definition Object_prototype :: "string list" where
  "Object_prototype =
     [''constructor'', ''hasOwnProperty'', ''isPrototypeOf'', ''propertyIsEnumerable'',
      ''toLocaleString'', ''toString'', ''valueOf'', ''__proto__'',
      ''__defineGetter__'', ''__defineSetter__'', ''__lookupGetter__'', ''__lookupSetter__'']"

text \<open>
  \<^verbatim>\<open>key in obj\<close> is true when \<^verbatim>\<open>obj\<close> has the property \<^verbatim>\<open>key\<close>, own or inherited.
\<close>

definition has_property :: "string \<Rightarrow> 'a object \<Rightarrow> bool" where
  "has_property key obj =
     (case obj key of Some _ \<Rightarrow> True | None \<Rightarrow> List.member Object_prototype key)"

text \<open>
  Modelled from the spec: \<^verbatim>\<open>objectAssign\<close> is the npm package \<^verbatim>\<open>object-assign\<close>,
  imported by \<^verbatim>\<open>index.ts\<close> and not part of the sources. The specification describes
  it as the ordinary shallow merge: the own properties of every source are assigned to the
  target, the sources taken from left to right, so a later source overwrites an earlier
  one key by key and nested values are never merged. Every key is taken alike, also
  \<^verbatim>\<open>__proto__\<close>, which an assignment \<^verbatim>\<open>to[key] = from[key]\<close> would hand to the inherited
  setter.
\<close>

definition objectAssign :: "'a object \<Rightarrow> 'a object list \<Rightarrow> 'a object" where
  "objectAssign target sources = foldl (++) target sources"

subsection \<open>Actions and action creators\<close>

record 'p Action =
  type :: string
  payload :: 'p

text \<open>
  An effect may do more than compute the payload (the tests count calls, the README
  draws a random id), so it takes the outside world and returns it with the payload.
\<close>

type_synonym ('v, 'w) ActionEffect = "'v \<Rightarrow> 'w \<Rightarrow> 'v \<times> 'w"

text \<open>
  An action creator is a function object: calling it builds an action, and its own
  \<^verbatim>\<open>toString\<close> returns the type of the actions it builds.
\<close>

record ('v, 'w) ActionCreator =
  call :: "'v \<Rightarrow> 'w \<Rightarrow> 'v Action \<times> 'w"
  toString :: "unit \<Rightarrow> string"

record ('v, 'w) AsyncActionCreator =
  start :: "('v, 'w) ActionCreator"
  success :: "('v, 'w) ActionCreator"
  fail :: "('v, 'w) ActionCreator"

text \<open>
  The optional second argument of \<^verbatim>\<open>asyncAction\<close>, an object whose fields
  \<^verbatim>\<open>start\<close>, \<^verbatim>\<open>success\<close> and \<^verbatim>\<open>fail\<close> are each an effect or missing.
\<close>

record ('v, 'w) Effects =
  start' :: "('v, 'w) ActionEffect option"
  success' :: "('v, 'w) ActionEffect option"
  fail' :: "('v, 'w) ActionEffect option"

text \<open>\<^verbatim>\<open>const id = (x: any) => x\<close>\<close>

definition id' :: "('v, 'w) ActionEffect" where
  "id' x w = (x, w)"

text \<open>
  \<^verbatim>\<open>action(type, effect = id)\<close>: a missing (\<^verbatim>\<open>undefined\<close>) effect is replaced by
  \<^verbatim>\<open>id\<close>. Building the creator runs no effect, so the world comes back as it was.
\<close>

definition action ::
  "string \<Rightarrow> ('v, 'w) ActionEffect option \<Rightarrow> 'w \<Rightarrow> ('v, 'w) ActionCreator \<times> 'w" where
  "action type' effect w =
     (let effect = (case effect of None \<Rightarrow> id' | Some e \<Rightarrow> e);
          actionCreator =
            \<lparr>call = (\<lambda>data w.
                      let (payload', w) = effect data w
                      in (\<lparr>type = type', payload = payload'\<rparr>, w)),
             toString = (\<lambda>_. type')\<rparr>
      in (actionCreator, w))"

text \<open>\<^verbatim>\<open>a || b\<close> on an optional effect: the effect when there is one, else \<^verbatim>\<open>b\<close>.\<close>

definition or_else :: "'a option \<Rightarrow> 'a \<Rightarrow> 'a" where
  "or_else a b = (case a of Some x \<Rightarrow> x | None \<Rightarrow> b)"

text \<open>
  \<^verbatim>\<open>asyncAction(type, effects = {})\<close> builds the three creators in the order the
  object literal lists them.
\<close>

definition asyncAction ::
  "string \<Rightarrow> ('v, 'w) Effects option \<Rightarrow> 'w \<Rightarrow> ('v, 'w) AsyncActionCreator \<times> 'w" where
  "asyncAction type' effects w =
     (let effects = (case effects of
                       None \<Rightarrow> \<lparr>start' = None, success' = None, fail' = None\<rparr>
                     | Some e \<Rightarrow> e);
          (start_creator, w) = action (type' @ '':start'') (Some (or_else (start' effects) id')) w;
          (success_creator, w) = action (type' @ '':success'') (Some (or_else (success' effects) id')) w;
          (fail_creator, w) = action (type' @ '':fail'') (Some (or_else (fail' effects) id')) w
      in (\<lparr>start = start_creator, success = success_creator, fail = fail_creator\<rparr>, w))"

subsection \<open>Handler maps and reducers\<close>

type_synonym ('s, 'p) PayloadReducer = "'s \<Rightarrow> 'p \<Rightarrow> 's"

type_synonym ('v, 'p) PartialPayloadReducer = "'v object \<Rightarrow> 'p \<Rightarrow> 'v object"

text \<open>\<^verbatim>\<open>handle(action, reducer)\<close> returns \<^verbatim>\<open>{[action.toString()]: reducer}\<close>.\<close>

definition handle :: "('v, 'w) ActionCreator \<Rightarrow> 'h \<Rightarrow> 'h object" where
  "handle action' reducer = [toString action' () \<mapsto> reducer]"

text \<open>
  What a call of a reducer comes to. \<open>Returns s\<close>: it returns the state \<open>s\<close>.
  \<open>Inherited n s p\<close>: the map has no own property \<open>n\<close>, so \<^verbatim>\<open>reducerMap[n]\<close> is the
  member \<open>n\<close> that the map inherits from \<^verbatim>\<open>Object.prototype\<close>, and the reducer applies
  that member to the state \<open>s\<close> and the payload \<open>p\<close> in place of a handler. What comes
  back is the built-in's business, not a handler's: \<^verbatim>\<open>toString\<close> gives the string
  \<^verbatim>\<open>[object Object]\<close>, \<^verbatim>\<open>__proto__\<close> is no function and the call throws a TypeError.
\<close>

datatype ('s, 'p) completion =
    Returns 's
  | Inherited string 's 'p

text \<open>
  \<^verbatim>\<open>createReducer(reducerMap, initialState)\<close> returns the function
  \<^verbatim>\<open>(state = initialState, action) => ...\<close>; the default applies when the state passed
  is \<^verbatim>\<open>undefined\<close>, here \<open>None\<close>.
\<close>

definition createReducer ::
  "('s, 'p) PayloadReducer object \<Rightarrow> 's \<Rightarrow> 's option \<Rightarrow> 'p Action \<Rightarrow> ('s, 'p) completion" where
  "createReducer reducerMap initialState state action' =
     (let state = (case state of None \<Rightarrow> initialState | Some s \<Rightarrow> s);
          type' = type action'
      in if has_property type' reducerMap
         then (case reducerMap type' of
                 Some reducer \<Rightarrow> Returns (reducer state (payload action'))
               | None \<Rightarrow> Inherited type' state (payload action'))
         else Returns state)"

text \<open>
  \<^verbatim>\<open>createReducerAppend\<close>: the handler returns a part of the state, which is merged
  into a copy of the state. With an inherited member in place of the handler, what the
  built-in returns is merged the same way.
\<close>

definition createReducerAppend ::
  "('v, 'p) PartialPayloadReducer object \<Rightarrow> 'v object \<Rightarrow> 'v object option \<Rightarrow> 'p Action
     \<Rightarrow> ('v object, 'p) completion" where
  "createReducerAppend reducerMap initialState state action' =
     (let state = (case state of None \<Rightarrow> initialState | Some s \<Rightarrow> s);
          type' = type action'
      in if has_property type' reducerMap
         then (case reducerMap type' of
                 Some reducer \<Rightarrow>
                   (let newStatePartition = reducer state (payload action')
                    in Returns (objectAssign Map.empty [state, newStatePartition]))
               | None \<Rightarrow> Inherited type' state (payload action'))
         else Returns state)"

definition handleActions ::
  "('s, 'p) PayloadReducer object list \<Rightarrow> 's \<Rightarrow> 's option \<Rightarrow> 'p Action \<Rightarrow> ('s, 'p) completion" where
  "handleActions reducerMaps initialState =
     createReducer (objectAssign Map.empty reducerMaps) initialState"

definition handleActionsAppend ::
  "('v, 'p) PartialPayloadReducer object list \<Rightarrow> 'v object \<Rightarrow> 'v object option \<Rightarrow> 'p Action
     \<Rightarrow> ('v object, 'p) completion" where
  "handleActionsAppend reducerMaps initialState =
     createReducerAppend (objectAssign Map.empty reducerMaps) initialState"

subsection \<open>The specification's reading of the composite helpers\<close>

text \<open>
  The specification (section 4.2) describes \<^verbatim>\<open>combineHandlerMappings\<close> by its result: the
  combined mapping has the union of all keys, and a key that several mappings of the
  sequence have gets the handler of the latest of them. This definition follows those
  words, not the code.
\<close>

definition combineHandlerMappings :: "'h object list \<Rightarrow> 'h object" where
  "combineHandlerMappings mappings key =
     (let having = filter (\<lambda>m. m key \<noteq> None) mappings
      in if having = [] then None else last having key)"

text \<open>
  Section 4.3: \<^verbatim>\<open>assembleReducer\<close> and \<^verbatim>\<open>assembleReducerAppend\<close> pipe
  \<^verbatim>\<open>combineHandlerMappings\<close> through the single-mapping constructor.
\<close>

definition assembleReducer ::
  "('s, 'p) PayloadReducer object list \<Rightarrow> 's \<Rightarrow> 's option \<Rightarrow> 'p Action \<Rightarrow> ('s, 'p) completion" where
  "assembleReducer mappings initial = createReducer (combineHandlerMappings mappings) initial"

definition assembleReducerAppend ::
  "('v, 'p) PartialPayloadReducer object list \<Rightarrow> 'v object \<Rightarrow> 'v object option \<Rightarrow> 'p Action
     \<Rightarrow> ('v object, 'p) completion" where
  "assembleReducerAppend mappings initial =
     createReducerAppend (combineHandlerMappings mappings) initial"

subsection \<open>Counting the calls of an effect\<close>

text \<open>
  The test \<^verbatim>\<open>with effect\<close> gives the creator an effect that bumps a counter outside.
  \<open>counting f\<close> is the effect \<open>f\<close> with such a counter added to the world: every run of
  it adds one.
\<close>

definition counting :: "('v, 'w) ActionEffect \<Rightarrow> ('v, nat \<times> 'w) ActionEffect" where
  "counting f data = (\<lambda>(n, w). let (payload', w) = f data w in (payload', (Suc n, w)))"

subsection \<open>The handlers of the scenarios\<close>

text \<open>
  The counter of the README and of the specification's end-to-end scenario:
  \<^verbatim>\<open>{"inc": (s, p) => s + p, "dec": (s, p) => s - p}\<close>.
\<close>

definition inc_handler :: "(int, int) PayloadReducer" where
  "inc_handler s p = s + p"

definition dec_handler :: "(int, int) PayloadReducer" where
  "dec_handler s p = s - p"

definition counter_map :: "(int, int) PayloadReducer object" where
  "counter_map = [''inc'' \<mapsto> inc_handler, ''dec'' \<mapsto> dec_handler]"

text \<open>The partial handler of the merge law, \<^verbatim>\<open>h(s, p) = {b: p}\<close>.\<close>

definition set_b :: "('v, 'v) PartialPayloadReducer" where
  "set_b s p = [''b'' \<mapsto> p]"

section \<open>Properties\<close>

lemma has_property_own: "reducerMap key = Some h \<Longrightarrow> has_property key reducerMap"
  by (simp add: has_property_def)

text \<open>
  C2. A reducer built by \<^verbatim>\<open>createReducer\<close> from the map \<open>m\<close> and the initial state
  \<open>I\<close>, called with an undefined state and an action whose type is a key of \<open>m\<close>,
  returns the handler of that key applied to \<open>I\<close> and the action's payload: the handler
  runs on the very first call.
\<close>

theorem createReducer_undefined_handled:
  assumes "m (type a) = Some h"
  shows "createReducer m I None a = Returns (h I (payload a))"
  using assms by (simp add: createReducer_def has_property_own)

theorem createReducer_undefined_handled_witness:
  "counter_map (type \<lparr>type = ''inc'', payload = 10\<rparr>) = Some inc_handler
   \<and> createReducer counter_map 0 None \<lparr>type = ''inc'', payload = 10\<rparr> = Returns 10"
proof -
  have key: "counter_map (type \<lparr>type = ''inc'', payload = 10::int\<rparr>) = Some inc_handler"
    by (simp add: counter_map_def)
  from createReducer_undefined_handled
    [where m = counter_map and a = "\<lparr>type = ''inc'', payload = 10\<rparr>" and h = inc_handler
       and I = 0] key
  show ?thesis
    by (simp add: inc_handler_def)
qed

subsection \<open>The merge\<close>

lemma objectAssign_snoc: "objectAssign target (sources @ [m]) = objectAssign target sources ++ m"
  by (simp add: objectAssign_def)

lemma combineHandlerMappings_Nil: "combineHandlerMappings [] key = None"
  by (simp add: combineHandlerMappings_def)

lemma combineHandlerMappings_snoc:
  "combineHandlerMappings (ms @ [m]) key =
     (case m key of Some h \<Rightarrow> Some h | None \<Rightarrow> combineHandlerMappings ms key)"
  by (cases "m key") (simp_all add: combineHandlerMappings_def Let_def)

lemma objectAssign_combineHandlerMappings:
  "objectAssign Map.empty ms = combineHandlerMappings ms"
proof (induction ms rule: rev_induct)
  case Nil
  show ?case
    by (rule ext) (simp add: objectAssign_def combineHandlerMappings_Nil)
next
  case (snoc m ms)
  show ?case
  proof (rule ext)
    fix key
    show "objectAssign Map.empty (ms @ [m]) key = combineHandlerMappings (ms @ [m]) key"
      by (simp add: objectAssign_snoc snoc.IH combineHandlerMappings_snoc map_add_def)
  qed
qed

lemma dom_objectAssign: "dom (objectAssign target sources) = dom target \<union> (\<Union>m\<in>set sources. dom m)"
  by (induction sources rule: rev_induct) (auto simp: objectAssign_snoc objectAssign_def)

lemma objectAssign_append:
  "objectAssign target (xs @ ys) = objectAssign (objectAssign target xs) ys"
  by (simp add: objectAssign_def)

lemma objectAssign_untouched:
  "\<forall>m\<in>set sources. m key = None \<Longrightarrow> objectAssign target sources key = target key"
  by (induction sources rule: rev_induct) (simp_all add: objectAssign_def map_add_def)

lemma objectAssign_pair: "objectAssign Map.empty [s, partial] = s ++ partial"
  by (simp add: objectAssign_def)

subsection \<open>Reducers\<close>

lemma not_has_property_None: "\<not> has_property key reducerMap \<Longrightarrow> reducerMap key = None"
  by (cases "reducerMap key") (simp_all add: has_property_def)

lemma createReducer_own:
  "m (type a) = Some h \<Longrightarrow>
   createReducer m I state a = Returns (h (case state of None \<Rightarrow> I | Some s \<Rightarrow> s) (payload a))"
  by (simp add: createReducer_def has_property_own)

lemma createReducerAppend_own:
  "m (type a) = Some h \<Longrightarrow>
   createReducerAppend m I state a =
     Returns ((case state of None \<Rightarrow> I | Some s \<Rightarrow> s)
                ++ h (case state of None \<Rightarrow> I | Some s \<Rightarrow> s) (payload a))"
  by (simp add: createReducerAppend_def has_property_own objectAssign_pair Let_def)

lemma createReducer_absent:
  "\<not> has_property (type a) m \<Longrightarrow>
   createReducer m I state a = Returns (case state of None \<Rightarrow> I | Some s \<Rightarrow> s)"
  by (simp add: createReducer_def)

lemma createReducerAppend_absent:
  "\<not> has_property (type a) m \<Longrightarrow>
   createReducerAppend m I state a = Returns (case state of None \<Rightarrow> I | Some s \<Rightarrow> s)"
  by (simp add: createReducerAppend_def)

lemma has_property_dummy: "\<not> has_property ''dummy'' counter_map"
  by (simp add: has_property_def counter_map_def Object_prototype_def)

text \<open>
  C1, as the specification states it, fails: with an undefined state the reducer does not
  ignore a registered handler. On the counter, the first action \<open>inc 10\<close> gives 10, not
  the initial state 0; on the merge law's map the first action gives the initial state
  with \<open>b\<close> overwritten.
\<close>

theorem undefined_state_ignores_handler_counterexample:
  "createReducer counter_map 0 None \<lparr>type = ''inc'', payload = 10\<rparr> \<noteq> Returns 0
   \<and> createReducerAppend [''t'' \<mapsto> set_b] [''a'' \<mapsto> 1, ''b'' \<mapsto> 2::int] None
         \<lparr>type = ''t'', payload = 9\<rparr> \<noteq> Returns [''a'' \<mapsto> 1, ''b'' \<mapsto> 2]"
proof
  show "createReducer counter_map 0 None \<lparr>type = ''inc'', payload = 10\<rparr> \<noteq> Returns 0"
    by (simp add: createReducer_def has_property_def counter_map_def inc_handler_def)
next
  have "createReducerAppend [''t'' \<mapsto> set_b] [''a'' \<mapsto> 1, ''b'' \<mapsto> 2::int] None
          \<lparr>type = ''t'', payload = 9\<rparr> = Returns ([''a'' \<mapsto> 1, ''b'' \<mapsto> 2] ++ [''b'' \<mapsto> 9])"
    by (simp add: createReducerAppend_own set_b_def)
  moreover have "([''a'' \<mapsto> 1, ''b'' \<mapsto> 2::int] ++ [''b'' \<mapsto> 9]) ''b'' \<noteq> [''a'' \<mapsto> 1, ''b'' \<mapsto> 2] ''b''"
    by simp
  ultimately show "createReducerAppend [''t'' \<mapsto> set_b] [''a'' \<mapsto> 1, ''b'' \<mapsto> 2::int] None
      \<lparr>type = ''t'', payload = 9\<rparr> \<noteq> Returns [''a'' \<mapsto> 1, ''b'' \<mapsto> 2]"
    by (metis completion.inject(1))
qed

text \<open>
  C1, amended. For a reducer built by \<^verbatim>\<open>createReducer\<close> or \<^verbatim>\<open>createReducerAppend\<close> with
  the initial state \<open>I\<close>, a call with an undefined state returns \<open>I\<close> when the map has no
  property of the action's type. A handler registered for the type is not ignored: it is
  applied to \<open>I\<close>, and \<^verbatim>\<open>createReducerAppend\<close> merges what it returns into \<open>I\<close>.
\<close>

theorem undefined_state_initial:
  "(\<not> has_property (type a) m \<longrightarrow> createReducer m I None a = Returns I)
   \<and> (\<not> has_property (type a) n \<longrightarrow> createReducerAppend n J None a = Returns J)
   \<and> (m (type a) = Some h \<longrightarrow> createReducer m I None a = Returns (h I (payload a)))
   \<and> (n (type a) = Some g \<longrightarrow> createReducerAppend n J None a = Returns (J ++ g J (payload a)))"
  by (simp add: createReducer_absent createReducerAppend_absent createReducer_own
      createReducerAppend_own)

theorem undefined_state_initial_witness:
  "\<not> has_property (type \<lparr>type = ''dummy'', payload = 0\<rparr>) counter_map
   \<and> createReducer counter_map 0 None \<lparr>type = ''dummy'', payload = 0\<rparr> = Returns 0
   \<and> \<not> has_property (type \<lparr>type = ''dummy'', payload = 0::int\<rparr>)
         ([''t'' \<mapsto> set_b] :: (int, int) PartialPayloadReducer object)
   \<and> createReducerAppend [''t'' \<mapsto> set_b] [''a'' \<mapsto> 1, ''b'' \<mapsto> 2::int] None
        \<lparr>type = ''dummy'', payload = 0\<rparr> = Returns [''a'' \<mapsto> 1, ''b'' \<mapsto> 2]
   \<and> counter_map (type \<lparr>type = ''inc'', payload = 10\<rparr>) = Some inc_handler
   \<and> createReducer counter_map 0 None \<lparr>type = ''inc'', payload = 10\<rparr> = Returns 10
   \<and> ([''inc'' \<mapsto> set_b] :: (int, int) PartialPayloadReducer object)
         (type \<lparr>type = ''inc'', payload = 10::int\<rparr>) = Some set_b
   \<and> createReducerAppend [''inc'' \<mapsto> set_b] [''a'' \<mapsto> 1, ''b'' \<mapsto> 2::int] None
        \<lparr>type = ''inc'', payload = 10\<rparr> = Returns [''a'' \<mapsto> 1, ''b'' \<mapsto> 10]"
proof -
  have d1: "\<not> has_property (type \<lparr>type = ''dummy'', payload = 0::int\<rparr>) counter_map"
    by (simp add: has_property_dummy)
  have d2: "\<not> has_property (type \<lparr>type = ''dummy'', payload = 0::int\<rparr>)
              ([''t'' \<mapsto> set_b] :: (int, int) PartialPayloadReducer object)"
    by (simp add: has_property_def Object_prototype_def)
  have k1: "counter_map (type \<lparr>type = ''inc'', payload = 10::int\<rparr>) = Some inc_handler"
    by (simp add: counter_map_def)
  have k2: "([''inc'' \<mapsto> set_b] :: (int, int) PartialPayloadReducer object)
              (type \<lparr>type = ''inc'', payload = 10::int\<rparr>) = Some set_b"
    by simp
  have m: "[''a'' \<mapsto> 1, ''b'' \<mapsto> 2::int] ++ set_b [''a'' \<mapsto> 1, ''b'' \<mapsto> 2] 10
             = [''a'' \<mapsto> 1, ''b'' \<mapsto> 10]"
    by (simp add: set_b_def)
  from d1 d2 k1 k2 m
    undefined_state_initial [of "\<lparr>type = ''dummy'', payload = 0\<rparr>" counter_map 0
      "[''t'' \<mapsto> set_b]" "[''a'' \<mapsto> 1, ''b'' \<mapsto> 2]" inc_handler set_b]
    undefined_state_initial [of "\<lparr>type = ''inc'', payload = 10\<rparr>" counter_map 0
      "[''inc'' \<mapsto> set_b]" "[''a'' \<mapsto> 1, ''b'' \<mapsto> 2]" inc_handler set_b]
  show ?thesis
    by (simp add: inc_handler_def)
qed

text \<open>
  C3 at an action type that is no key of the map but names a member of
  \<^verbatim>\<open>Object.prototype\<close>: \<^verbatim>\<open>"toString" in reducerMap\<close> holds for the empty map, so the
  reducer does not reach \<^verbatim>\<open>return state\<close>. It calls the inherited \<^verbatim>\<open>toString\<close> on the
  state and the payload, and the state 5 is lost; so do the reducer of
  \<^verbatim>\<open>handleActions([], 0)\<close> and the append reducer.
\<close>

theorem unhandled_inherited_type:
  "createReducer Map.empty (0::int) (Some 5) \<lparr>type = ''toString'', payload = ()\<rparr>
      = Inherited ''toString'' 5 ()
   \<and> handleActions [] (0::int) (Some 5) \<lparr>type = ''toString'', payload = ()\<rparr>
      = Inherited ''toString'' 5 ()
   \<and> createReducerAppend Map.empty Map.empty (Some [''a'' \<mapsto> 1::int])
        \<lparr>type = ''toString'', payload = ()\<rparr>
      = Inherited ''toString'' [''a'' \<mapsto> 1] ()"
  by (simp add: createReducer_def createReducerAppend_def handleActions_def objectAssign_def
      has_property_def Object_prototype_def)

text \<open>
  C4. A reducer built by \<^verbatim>\<open>createReducerAppend\<close>, on a defined state \<open>s\<close> and an action
  whose type has the handler \<open>h\<close>, returns \<open>s\<close> with every top-level key of the partial
  state \<open>h s payload\<close> overwritten by the partial state's value, whole, and every other
  key as in \<open>s\<close>; the values are of any type, nested structures among them. With
  \<open>s = {a: 1, b: 2}\<close>, \<open>h(s, p) = {b: p}\<close> and the payload 9 the result is
  \<open>{a: 1, b: 9}\<close>, whatever the initial state \<open>I0\<close>.
\<close>

theorem createReducerAppend_shallow_merge:
  "(m (type a) = Some h \<longrightarrow>
      (\<exists>r. createReducerAppend m I (Some s) a = Returns r
         \<and> (\<forall>k v. h s (payload a) k = Some v \<longrightarrow> r k = Some v)
         \<and> (\<forall>k. h s (payload a) k = None \<longrightarrow> r k = s k)))
   \<and> createReducerAppend [''t'' \<mapsto> set_b] I0 (Some [''a'' \<mapsto> 1, ''b'' \<mapsto> 2::int])
        \<lparr>type = ''t'', payload = 9\<rparr> = Returns [''a'' \<mapsto> 1, ''b'' \<mapsto> 9]"
proof (intro conjI impI)
  assume key: "m (type a) = Some h"
  let ?r = "s ++ h s (payload a)"
  have "createReducerAppend m I (Some s) a = Returns ?r"
    using key by (simp add: createReducerAppend_own)
  moreover have "\<forall>k v. h s (payload a) k = Some v \<longrightarrow> ?r k = Some v"
    by simp
  moreover have "\<forall>k. h s (payload a) k = None \<longrightarrow> ?r k = s k"
    by (simp add: map_add_def)
  ultimately show "\<exists>r. createReducerAppend m I (Some s) a = Returns r
      \<and> (\<forall>k v. h s (payload a) k = Some v \<longrightarrow> r k = Some v)
      \<and> (\<forall>k. h s (payload a) k = None \<longrightarrow> r k = s k)"
    by blast
next
  show "createReducerAppend [''t'' \<mapsto> set_b] I0 (Some [''a'' \<mapsto> 1, ''b'' \<mapsto> 2::int])
          \<lparr>type = ''t'', payload = 9\<rparr> = Returns [''a'' \<mapsto> 1, ''b'' \<mapsto> 9]"
    by (simp add: createReducerAppend_own set_b_def)
qed

text \<open>
  An instance on a state whose values are lists: the list under \<open>b\<close> is replaced by the
  partial state's list, not merged with it, and the list under \<open>a\<close> stays.
\<close>

theorem createReducerAppend_shallow_merge_witness:
  "([''t'' \<mapsto> set_b] :: (int list, int list) PartialPayloadReducer object)
       (type \<lparr>type = ''t'', payload = [9::int]\<rparr>) = Some set_b
   \<and> (\<exists>r. createReducerAppend [''t'' \<mapsto> set_b] Map.empty
             (Some [''a'' \<mapsto> [1], ''b'' \<mapsto> [2, 3::int]]) \<lparr>type = ''t'', payload = [9]\<rparr> = Returns r
          \<and> r ''b'' = Some [9] \<and> r ''a'' = Some [1] \<and> r ''c'' = None)"
proof -
  have key: "([''t'' \<mapsto> set_b] :: (int list, int list) PartialPayloadReducer object)
               (type \<lparr>type = ''t'', payload = [9::int]\<rparr>) = Some set_b"
    by simp
  have b: "set_b [''a'' \<mapsto> [1], ''b'' \<mapsto> [2, 3::int]] [9::int] ''b'' = Some [9]"
    and a: "set_b [''a'' \<mapsto> [1], ''b'' \<mapsto> [2, 3::int]] [9::int] ''a'' = None"
    and c: "set_b [''a'' \<mapsto> [1], ''b'' \<mapsto> [2, 3::int]] [9::int] ''c'' = None"
    by (simp_all add: set_b_def)
  note inst = createReducerAppend_shallow_merge
    [where m = "[''t'' \<mapsto> set_b]" and a = "\<lparr>type = ''t'', payload = [9::int]\<rparr>" and h = set_b
       and I = Map.empty and s = "[''a'' \<mapsto> [1], ''b'' \<mapsto> [2, 3::int]]"
       and ?I0.0 = Map.empty]
  from inst key have "\<exists>r. createReducerAppend [''t'' \<mapsto> set_b] Map.empty
        (Some [''a'' \<mapsto> [1], ''b'' \<mapsto> [2, 3::int]]) \<lparr>type = ''t'', payload = [9::int]\<rparr> = Returns r
      \<and> (\<forall>k v. set_b [''a'' \<mapsto> [1], ''b'' \<mapsto> [2, 3::int]]
                   (payload \<lparr>type = ''t'', payload = [9::int]\<rparr>) k = Some v \<longrightarrow> r k = Some v)
      \<and> (\<forall>k. set_b [''a'' \<mapsto> [1], ''b'' \<mapsto> [2, 3::int]]
                   (payload \<lparr>type = ''t'', payload = [9::int]\<rparr>) k = None
                 \<longrightarrow> r k = [''a'' \<mapsto> [1], ''b'' \<mapsto> [2, 3]] k)"
    by blast
  then obtain r where r: "createReducerAppend [''t'' \<mapsto> set_b] Map.empty
        (Some [''a'' \<mapsto> [1], ''b'' \<mapsto> [2, 3::int]]) \<lparr>type = ''t'', payload = [9::int]\<rparr> = Returns r"
    and over: "\<forall>k v. set_b [''a'' \<mapsto> [1], ''b'' \<mapsto> [2, 3::int]] [9::int] k = Some v
                 \<longrightarrow> r k = Some v"
    and keep: "\<forall>k. set_b [''a'' \<mapsto> [1], ''b'' \<mapsto> [2, 3::int]] [9::int] k = None
                 \<longrightarrow> r k = [''a'' \<mapsto> [1], ''b'' \<mapsto> [2, 3]] k"
    by auto
  from over b have "r ''b'' = Some [9]" by blast
  moreover from keep a have "r ''a'' = Some [1]" by simp
  moreover from keep c have "r ''c'' = None" by simp
  ultimately show ?thesis using key r by blast
qed

text \<open>
  C5. Merging a sequence of handler maps, as \<^verbatim>\<open>handleActions\<close> and
  \<^verbatim>\<open>handleActionsAppend\<close> do with \<^verbatim>\<open>objectAssign({}, ...reducerMaps)\<close>, gives a map whose
  keys are the union of the keys of all of them, and a key has the handler of the last map
  of the sequence that has it. Merging \<open>[{t: h1}, {t: h2}]\<close> gives \<open>{t: h2}\<close>, and the
  reducers built from the two are the same.
\<close>

theorem merge_later_wins:
  "dom (objectAssign Map.empty ms) = (\<Union>m\<in>set ms. dom m)
   \<and> (m k = Some h \<and> (\<forall>m'\<in>set ys. m' k = None)
        \<longrightarrow> objectAssign Map.empty (xs @ m # ys) k = Some h)
   \<and> objectAssign Map.empty [[t \<mapsto> h1], [t \<mapsto> h2]] = [t \<mapsto> h2]
   \<and> handleActions [[t \<mapsto> r1], [t \<mapsto> r2]] I = createReducer [t \<mapsto> r2] I
   \<and> handleActionsAppend [[t \<mapsto> p1], [t \<mapsto> p2]] J = createReducerAppend [t \<mapsto> p2] J"
proof (intro conjI impI)
  show "dom (objectAssign Map.empty ms) = (\<Union>m\<in>set ms. dom m)"
    by (simp add: dom_objectAssign)
next
  assume last: "m k = Some h \<and> (\<forall>m'\<in>set ys. m' k = None)"
  have "objectAssign Map.empty (xs @ m # ys) k = objectAssign (objectAssign Map.empty (xs @ [m])) ys k"
    by (simp add: objectAssign_def)
  also have "\<dots> = objectAssign Map.empty (xs @ [m]) k"
    using last by (simp add: objectAssign_untouched)
  also have "\<dots> = Some h"
    using last by (simp add: objectAssign_snoc)
  finally show "objectAssign Map.empty (xs @ m # ys) k = Some h" .
next
  show "objectAssign Map.empty [[t \<mapsto> h1], [t \<mapsto> h2]] = [t \<mapsto> h2]"
    by (simp add: objectAssign_def)
next
  show "handleActions [[t \<mapsto> r1], [t \<mapsto> r2]] I = createReducer [t \<mapsto> r2] I"
    by (simp add: handleActions_def objectAssign_def)
next
  show "handleActionsAppend [[t \<mapsto> p1], [t \<mapsto> p2]] J = createReducerAppend [t \<mapsto> p2] J"
    by (simp add: handleActionsAppend_def objectAssign_def)
qed

theorem merge_later_wins_witness:
  "[''dec'' \<mapsto> inc_handler] ''dec'' = Some inc_handler
   \<and> [''inc'' \<mapsto> inc_handler] ''dec'' = None
   \<and> objectAssign Map.empty
        ([[''dec'' \<mapsto> dec_handler]] @ [''dec'' \<mapsto> inc_handler] # [[''inc'' \<mapsto> inc_handler]])
        ''dec'' = Some inc_handler
   \<and> dom (objectAssign Map.empty
        [[''dec'' \<mapsto> dec_handler], [''dec'' \<mapsto> inc_handler], [''inc'' \<mapsto> inc_handler]])
        = {''dec'', ''inc''}
   \<and> handleActions [[''t'' \<mapsto> inc_handler], [''t'' \<mapsto> dec_handler]] 0
        = createReducer [''t'' \<mapsto> dec_handler] 0"
proof -
  have h: "[''dec'' \<mapsto> inc_handler] ''dec'' = Some inc_handler
           \<and> (\<forall>m'\<in>set [[''inc'' \<mapsto> inc_handler]]. m' ''dec'' = None)"
    by simp
  note inst = merge_later_wins
    [where ms = "[[''dec'' \<mapsto> dec_handler], [''dec'' \<mapsto> inc_handler], [''inc'' \<mapsto> inc_handler]]"
       and m = "[''dec'' \<mapsto> inc_handler]" and k = "''dec''" and h = inc_handler
       and ys = "[[''inc'' \<mapsto> inc_handler]]" and xs = "[[''dec'' \<mapsto> dec_handler]]"
       and t = "''t''" and ?h1.0 = inc_handler and ?h2.0 = dec_handler
       and ?r1.0 = inc_handler and ?r2.0 = dec_handler and I = 0
       and ?p1.0 = "set_b :: (int, int) PartialPayloadReducer"
       and ?p2.0 = "set_b :: (int, int) PartialPayloadReducer" and J = Map.empty]
  from inst have keys: "dom (objectAssign Map.empty
        [[''dec'' \<mapsto> dec_handler], [''dec'' \<mapsto> inc_handler], [''inc'' \<mapsto> inc_handler]])
        = {''dec'', ''inc''}"
    by auto
  from inst h have wins: "objectAssign Map.empty
        ([[''dec'' \<mapsto> dec_handler]] @ [''dec'' \<mapsto> inc_handler] # [[''inc'' \<mapsto> inc_handler]])
        ''dec'' = Some inc_handler"
    by blast
  from inst have same: "handleActions [[''t'' \<mapsto> inc_handler], [''t'' \<mapsto> dec_handler]] 0
        = createReducer [''t'' \<mapsto> dec_handler] 0"
    by blast
  from keys wins same show ?thesis
    by simp
qed

subsection \<open>Action creators\<close>

lemma action_world: "snd (action t effect w0) = w0"
  by (simp add: action_def Let_def)

lemma action_toString: "toString (fst (action t effect w0)) () = t"
  by (simp add: action_def Let_def)

lemma action_call_effect:
  "call (fst (action t (Some f) w0)) d w = (\<lparr>type = t, payload = fst (f d w)\<rparr>, snd (f d w))"
  by (simp add: action_def Let_def split_beta)

lemma action_call_id: "call (fst (action t None w0)) d w = (\<lparr>type = t, payload = d\<rparr>, w)"
  by (simp add: action_def Let_def id'_def)

lemma action_call_or_else:
  "call (fst (action t (Some (or_else e id')) w0)) d w =
     (case e of None \<Rightarrow> (\<lparr>type = t, payload = d\<rparr>, w)
              | Some f \<Rightarrow> (\<lparr>type = t, payload = fst (f d w)\<rparr>, snd (f d w)))"
  by (cases e) (simp_all add: action_call_effect or_else_def id'_def)

text \<open>
  C6. For every type \<open>t\<close>, effect \<open>f\<close> and input \<open>d\<close>, the creator \<^verbatim>\<open>action(t, f)\<close>
  called on \<open>d\<close> returns the action of type \<open>t\<close> whose payload is what \<open>f\<close> returns for
  \<open>d\<close>. Building the creator leaves the world as it was, so the effect has not run; the
  call leaves the world as one run of \<open>f\<close> on \<open>d\<close> leaves it, and a counter kept by the
  effect goes up by one. Without an effect the payload is \<open>d\<close> and the world is
  unchanged. The creator's \<^verbatim>\<open>toString\<close> gives \<open>t\<close>.
\<close>

theorem action_creator:
  "snd (action t effect w0) = w0
   \<and> toString (fst (action t effect w0)) () = t
   \<and> call (fst (action t (Some f) w0)) d w = (\<lparr>type = t, payload = fst (f d w)\<rparr>, snd (f d w))
   \<and> snd (action t (Some (counting f)) (n0, w0)) = (n0, w0)
   \<and> call (fst (action t (Some (counting f)) (n0, w0))) d (n, w)
        = (\<lparr>type = t, payload = fst (f d w)\<rparr>, (Suc n, snd (f d w)))
   \<and> call (fst (action t None w0)) d w = (\<lparr>type = t, payload = d\<rparr>, w)"
  by (simp add: action_world action_toString action_call_effect action_call_id counting_def
      split_beta)

text \<open>
  An instance on the effect of the test \<^verbatim>\<open>with effect\<close>, which adds its argument to
  an outside counter: building the creator leaves the counter at 0, the call with 3 leaves
  it at 3, and the instrumented effect has run once.
\<close>

theorem action_creator_witness:
  "snd (action ''action with effect'' (Some (counting (\<lambda>data c. (data, c + data)))) (0, 0::int))
      = (0, 0)
   \<and> call (fst (action ''action with effect'' (Some (counting (\<lambda>data c. (data, c + data)))) (0, 0)))
        3 (0, 0::int)
      = (\<lparr>type = ''action with effect'', payload = 3\<rparr>, (Suc 0, 3))
   \<and> call (fst (action ''action type'' None ())) (7::int) () = (\<lparr>type = ''action type'', payload = 7\<rparr>, ())"
proof -
  note counted = action_creator
    [where t = "''action with effect''" and f = "\<lambda>data c. (data, c + data)" and ?n0.0 = 0
       and ?w0.0 = "0::int" and d = 3 and n = 0 and w = "0::int"
       and effect = "Some (\<lambda>data c. (data, c + data))"]
  note plain = action_creator
    [where t = "''action type''" and ?w0.0 = "()" and d = "7::int" and w = "()"
       and effect = None and f = id' and ?n0.0 = 0 and n = 0]
  from counted have built:
    "snd (action ''action with effect'' (Some (counting (\<lambda>data c. (data, c + data)))) (0, 0::int))
       = (0, 0)"
    by blast
  from counted have called:
    "call (fst (action ''action with effect'' (Some (counting (\<lambda>data c. (data, c + data)))) (0, 0)))
       3 (0, 0::int)
     = (\<lparr>type = ''action with effect'', payload = fst (3::int, (0::int) + 3)\<rparr>,
        (Suc 0, snd (3::int, (0::int) + 3)))"
    by blast
  from plain have identity:
    "call (fst (action ''action type'' None ())) (7::int) () = (\<lparr>type = ''action type'', payload = 7\<rparr>, ())"
    by blast
  from built called identity show ?thesis
    by simp
qed

lemma asyncAction_shape:
  "asyncAction base effects w0 =
     (\<lparr>start = fst (action (base @ '':start'')
                 (Some (or_else (start' (case effects of
                    None \<Rightarrow> \<lparr>start' = None, success' = None, fail' = None\<rparr> | Some e \<Rightarrow> e)) id')) w0),
       success = fst (action (base @ '':success'')
                 (Some (or_else (success' (case effects of
                    None \<Rightarrow> \<lparr>start' = None, success' = None, fail' = None\<rparr> | Some e \<Rightarrow> e)) id')) w0),
       fail = fst (action (base @ '':fail'')
                 (Some (or_else (fail' (case effects of
                    None \<Rightarrow> \<lparr>start' = None, success' = None, fail' = None\<rparr> | Some e \<Rightarrow> e)) id')) w0)\<rparr>,
      w0)"
  by (simp add: asyncAction_def Let_def split_beta action_world)

text \<open>
  C7. For every base string, \<^verbatim>\<open>asyncAction\<close> returns the three creators \<open>start\<close>,
  \<open>success\<close> and \<open>fail\<close>, and runs no effect while it builds them. Their types are the
  base followed by \<open>:start\<close>, \<open>:success\<close> and \<open>:fail\<close>. Each of them builds its payload
  with the effect of the same name in the second argument when there is one, and takes
  the input as the payload when there is none or no second argument at all.
\<close>

theorem asyncAction_creators:
  "snd (asyncAction base effects w0) = w0
   \<and> toString (start (fst (asyncAction base effects w0))) () = base @ '':start''
   \<and> toString (success (fst (asyncAction base effects w0))) () = base @ '':success''
   \<and> toString (fail (fst (asyncAction base effects w0))) () = base @ '':fail''
   \<and> call (start (fst (asyncAction base (Some e) w0))) d w =
        (case start' e of
           None \<Rightarrow> (\<lparr>type = base @ '':start'', payload = d\<rparr>, w)
         | Some f \<Rightarrow> (\<lparr>type = base @ '':start'', payload = fst (f d w)\<rparr>, snd (f d w)))
   \<and> call (success (fst (asyncAction base (Some e) w0))) d w =
        (case success' e of
           None \<Rightarrow> (\<lparr>type = base @ '':success'', payload = d\<rparr>, w)
         | Some f \<Rightarrow> (\<lparr>type = base @ '':success'', payload = fst (f d w)\<rparr>, snd (f d w)))
   \<and> call (fail (fst (asyncAction base (Some e) w0))) d w =
        (case fail' e of
           None \<Rightarrow> (\<lparr>type = base @ '':fail'', payload = d\<rparr>, w)
         | Some f \<Rightarrow> (\<lparr>type = base @ '':fail'', payload = fst (f d w)\<rparr>, snd (f d w)))
   \<and> call (start (fst (asyncAction base None w0))) d w = (\<lparr>type = base @ '':start'', payload = d\<rparr>, w)
   \<and> call (success (fst (asyncAction base None w0))) d w
        = (\<lparr>type = base @ '':success'', payload = d\<rparr>, w)
   \<and> call (fail (fst (asyncAction base None w0))) d w = (\<lparr>type = base @ '':fail'', payload = d\<rparr>, w)"
  by (simp add: asyncAction_shape action_toString action_call_or_else)

text \<open>
  An instance on the test \<^verbatim>\<open>asyncAction\<close>: no effect for \<open>start\<close>, an effect that adds
  the data to a counter for \<open>success\<close>.
\<close>

theorem asyncAction_creators_witness:
  "toString (start (fst (asyncAction ''x'' None (0::int) :: (int, int) AsyncActionCreator \<times> int))) () = ''x:start''
   \<and> toString (success (fst (asyncAction ''x'' None (0::int) :: (int, int) AsyncActionCreator \<times> int))) () = ''x:success''
   \<and> toString (fail (fst (asyncAction ''x'' None (0::int) :: (int, int) AsyncActionCreator \<times> int))) () = ''x:fail''
   \<and> call (success (fst (asyncAction ''req'' None (0::int)))) (4::int) 0
        = (\<lparr>type = ''req:success'', payload = 4\<rparr>, 0)
   \<and> call (success (fst (asyncAction ''async action''
        (Some \<lparr>start' = None, success' = Some (\<lambda>data c. (data, c + data)), fail' = None\<rparr>) 0))) 4 (0::int)
        = (\<lparr>type = ''async action:success'', payload = 4\<rparr>, 4)
   \<and> call (start (fst (asyncAction ''async action''
        (Some \<lparr>start' = None, success' = Some (\<lambda>data c. (data, c + data)), fail' = None\<rparr>) 0))) 4 (0::int)
        = (\<lparr>type = ''async action:start'', payload = 4\<rparr>, 0)"
proof -
  note x = asyncAction_creators
    [where base = "''x''" and effects = None and ?w0.0 = "0::int" and d = "4::int" and w = 0
       and e = "\<lparr>start' = None, success' = None, fail' = None\<rparr>"]
  note req = asyncAction_creators
    [where base = "''req''" and effects = None and ?w0.0 = "0::int" and d = "4::int" and w = 0
       and e = "\<lparr>start' = None, success' = None, fail' = None\<rparr>"]
  note test = asyncAction_creators
    [where base = "''async action''" and effects = None and ?w0.0 = "0::int" and d = "4::int"
       and w = 0
       and e = "\<lparr>start' = None, success' = Some (\<lambda>data c. (data, c + data)), fail' = None\<rparr>"]
  from x have types:
    "toString (start (fst (asyncAction ''x'' None (0::int) :: (int, int) AsyncActionCreator \<times> int))) () = ''x'' @ '':start''
     \<and> toString (success (fst (asyncAction ''x'' None (0::int) :: (int, int) AsyncActionCreator \<times> int))) () = ''x'' @ '':success''
     \<and> toString (fail (fst (asyncAction ''x'' None (0::int) :: (int, int) AsyncActionCreator \<times> int))) () = ''x'' @ '':fail''"
    by blast
  from req have plain:
    "call (success (fst (asyncAction ''req'' None (0::int)))) (4::int) 0
       = (\<lparr>type = ''req'' @ '':success'', payload = 4\<rparr>, 0)"
    by blast
  from test have counted:
    "call (success (fst (asyncAction ''async action''
        (Some \<lparr>start' = None, success' = Some (\<lambda>data c. (data, c + data)), fail' = None\<rparr>) 0))) 4 (0::int)
       = (case success' \<lparr>start' = None, success' = Some (\<lambda>data c. (data, c + data)), fail' = None\<rparr> of
            None \<Rightarrow> (\<lparr>type = ''async action'' @ '':success'', payload = 4::int\<rparr>, 0)
          | Some f \<Rightarrow> (\<lparr>type = ''async action'' @ '':success'', payload = fst (f 4 0)\<rparr>, snd (f 4 0)))"
    by blast
  from test have missing:
    "call (start (fst (asyncAction ''async action''
        (Some \<lparr>start' = None, success' = Some (\<lambda>data c. (data, c + data)), fail' = None\<rparr>) 0))) 4 (0::int)
       = (case start' \<lparr>start' = None, success' = Some (\<lambda>data c. (data, c + data)), fail' = None\<rparr> of
            None \<Rightarrow> (\<lparr>type = ''async action'' @ '':start'', payload = 4::int\<rparr>, 0)
          | Some f \<Rightarrow> (\<lparr>type = ''async action'' @ '':start'', payload = fst (f 4 0)\<rparr>, snd (f 4 0)))"
    by blast
  from types plain counted missing show ?thesis
    by simp
qed

subsection \<open>The handler of one creator\<close>

text \<open>
  C10. For every action creator \<open>c\<close> and handler \<open>h\<close>, \<^verbatim>\<open>handle(c, h)\<close> is a map with
  exactly one entry: its key is the string \<open>c\<close>'s \<^verbatim>\<open>toString\<close> returns, its value is
  \<open>h\<close>. For a creator built by \<^verbatim>\<open>action(t, effect)\<close> the key is \<open>t\<close>.
\<close>

theorem handle_single_entry:
  "dom (handle c h) = {toString c ()}
   \<and> handle c h (toString c ()) = Some h
   \<and> dom (handle (fst (action t effect w)) h) = {t}
   \<and> handle (fst (action t effect w)) h t = Some h"
  by (simp add: handle_def action_toString)

theorem handle_single_entry_witness:
  "dom (handle (fst (action ''add'' None ()) :: (int, unit) ActionCreator) inc_handler) = {''add''}
   \<and> handle (fst (action ''add'' None ()) :: (int, unit) ActionCreator) inc_handler ''add''
        = Some inc_handler
   \<and> handle (fst (action ''add'' None ()) :: (int, unit) ActionCreator) inc_handler ''sub'' = None"
proof -
  note add = handle_single_entry
    [where c = "fst (action ''add'' None ()) :: (int, unit) ActionCreator" and h = inc_handler
       and t = "''add''" and effect = "None :: (int, unit) ActionEffect option" and w = "()"]
  from add have keys:
    "dom (handle (fst (action ''add'' None ()) :: (int, unit) ActionCreator) inc_handler) = {''add''}"
    by blast
  from add have entry:
    "handle (fst (action ''add'' None ()) :: (int, unit) ActionCreator) inc_handler ''add''
       = Some inc_handler"
    by blast
  from keys have "''sub'' \<notin> dom (handle (fst (action ''add'' None ()) :: (int, unit) ActionCreator)
      inc_handler)"
    by simp
  then have other:
    "handle (fst (action ''add'' None ()) :: (int, unit) ActionCreator) inc_handler ''sub'' = None"
    by blast
  from keys entry other show ?thesis
    by blast
qed

subsection \<open>The composite helpers\<close>

text \<open>
  C9. For every sequence of handler maps and every initial state, the reducer of
  \<^verbatim>\<open>handleActions\<close> is the reducer \<^verbatim>\<open>createReducer\<close> builds from the combined mapping as
  the specification describes it, and the reducer of \<^verbatim>\<open>handleActionsAppend\<close> is the one
  \<^verbatim>\<open>createReducerAppend\<close> builds from it: the two are equal as functions of the state
  and the action.
\<close>

theorem handleActions_assembleReducer:
  "handleActions ms I = assembleReducer ms I
   \<and> handleActionsAppend ns J = assembleReducerAppend ns J"
  by (simp add: handleActions_def handleActionsAppend_def assembleReducer_def
      assembleReducerAppend_def objectAssign_combineHandlerMappings)

theorem handleActions_assembleReducer_witness:
  "handleActions [[''inc'' \<mapsto> inc_handler], [''inc'' \<mapsto> dec_handler]] 0 (Some 10)
       \<lparr>type = ''inc'', payload = 5\<rparr>
     = assembleReducer [[''inc'' \<mapsto> inc_handler], [''inc'' \<mapsto> dec_handler]] 0 (Some 10)
         \<lparr>type = ''inc'', payload = 5\<rparr>
   \<and> assembleReducer [[''inc'' \<mapsto> inc_handler], [''inc'' \<mapsto> dec_handler]] 0 (Some 10)
         \<lparr>type = ''inc'', payload = 5\<rparr> = Returns 5
   \<and> handleActionsAppend [[''t'' \<mapsto> set_b]] Map.empty (Some [''a'' \<mapsto> 1, ''b'' \<mapsto> 2::int])
       \<lparr>type = ''t'', payload = 9\<rparr>
     = assembleReducerAppend [[''t'' \<mapsto> set_b]] Map.empty (Some [''a'' \<mapsto> 1, ''b'' \<mapsto> 2])
         \<lparr>type = ''t'', payload = 9\<rparr>"
proof -
  note same = handleActions_assembleReducer
    [where ms = "[[''inc'' \<mapsto> inc_handler], [''inc'' \<mapsto> dec_handler]]" and I = 0
       and ns = "[[''t'' \<mapsto> set_b]] :: (int, int) PartialPayloadReducer object list"
       and J = Map.empty]
  have key: "combineHandlerMappings [[''inc'' \<mapsto> inc_handler], [''inc'' \<mapsto> dec_handler]]
      (type \<lparr>type = ''inc'', payload = 5::int\<rparr>) = Some dec_handler"
    by (simp add: combineHandlerMappings_def)
  have result: "assembleReducer [[''inc'' \<mapsto> inc_handler], [''inc'' \<mapsto> dec_handler]] 0 (Some 10)
      \<lparr>type = ''inc'', payload = 5\<rparr> = Returns 5"
    unfolding assembleReducer_def using key
    by (simp add: createReducer_own dec_handler_def)
  from same result show ?thesis
    by simp
qed

subsection \<open>The counter\<close>

text \<open>
  C8. The reducer built from the initial state 0 and the map
  \<open>{"inc": (s, p) => s + p, "dec": (s, p) => s - p}\<close>, called with an undefined state and
  the action \<open>inc(10)\<close>, returns 10; called with that state and the action \<open>dec(5)\<close> it
  returns 5. The actions are those the creators \<^verbatim>\<open>action("inc")\<close> and \<^verbatim>\<open>action("dec")\<close>
  build, and the reducer of \<^verbatim>\<open>handleActions\<close> over the two \<^verbatim>\<open>handle\<close> entries does the
  same.
\<close>

theorem counter_scenario:
  "createReducer counter_map 0 None (fst (call (fst (action ''inc'' None w)) 10 w)) = Returns 10
   \<and> createReducer counter_map 0 (Some 10) (fst (call (fst (action ''dec'' None w)) 5 w)) = Returns 5
   \<and> handleActions [handle (fst (action ''inc'' None w)) inc_handler,
                     handle (fst (action ''dec'' None w)) dec_handler] 0
        None (fst (call (fst (action ''inc'' None w)) 10 w)) = Returns 10
   \<and> handleActions [handle (fst (action ''inc'' None w)) inc_handler,
                     handle (fst (action ''dec'' None w)) dec_handler] 0
        (Some 10) (fst (call (fst (action ''dec'' None w)) 5 w)) = Returns 5"
proof -
  have inc: "fst (call (fst (action ''inc'' None w)) 10 w) = \<lparr>type = ''inc'', payload = 10\<rparr>"
    and dec: "fst (call (fst (action ''dec'' None w)) 5 w) = \<lparr>type = ''dec'', payload = 5\<rparr>"
    by (simp_all add: action_call_id)
  have maps: "objectAssign Map.empty
      [handle (fst (action ''inc'' None w)) inc_handler,
       handle (fst (action ''dec'' None w)) dec_handler] = counter_map"
    by (simp add: objectAssign_def handle_def action_toString counter_map_def)
  have first: "createReducer counter_map 0 None \<lparr>type = ''inc'', payload = 10\<rparr> = Returns 10"
    by (simp add: createReducer_own counter_map_def inc_handler_def)
  have second: "createReducer counter_map 0 (Some 10) \<lparr>type = ''dec'', payload = 5\<rparr> = Returns 5"
    by (simp add: createReducer_own counter_map_def dec_handler_def)
  show ?thesis
    by (simp add: inc dec handleActions_def maps first second)
qed

theorem counter_scenario_witness:
  "createReducer counter_map 0 None (fst (call (fst (action ''inc'' None ())) 10 ())) = Returns 10
   \<and> createReducer counter_map 0 (Some 10) (fst (call (fst (action ''dec'' None ())) 5 ()))
       = Returns 5"
  using counter_scenario [where w = "()"]
  by blast

end
